theory Spec2Isabelle
  imports Complex_Main "HOL-Library.Sublist"
begin

section \<open>Orbital simulator: the physics core of OrbitalAnimation.cpp\<close>

text \<open>
  The program computes on \<^verbatim>\<open>float\<close>. The embedding takes the real numbers for
  \<^verbatim>\<open>float\<close>: every operation is the exact one, with no rounding, no overflow and
  no NaN. All control flow, the order of the operations, the constants and the points the
  vectors are measured from are those of the source.
\<close>

subsection \<open>Constants (lines 8 to 20)\<close>

type_synonym vec = "real \<times> real"

definition EARTH_CENTER :: vec where
  "EARTH_CENTER = (600, 450)"

definition G :: real where
  "G = 2 / 10"

definition EARTH_MASS :: real where
  "EARTH_MASS = 5000"

definition J2_STRENGTH :: real where
  "J2_STRENGTH = 5 / 100000"

definition EARTH_RADIUS :: real where
  "EARTH_RADIUS = 90"

definition MIN_DIST :: real where
  "MIN_DIST = 1 / 1000"

definition MAX_TRAIL :: nat where
  "MAX_TRAIL = 3000"

definition MAX_DT :: real where
  "MAX_DT = 5 / 100"

definition ORBIT_SPEED_SCALE :: real where
  "ORBIT_SPEED_SCALE = 4"

subsection \<open>The operators of \<^verbatim>\<open>sf::Vector2f\<close> the program uses\<close>

fun vadd :: "vec \<Rightarrow> vec \<Rightarrow> vec" where
  "vadd (a, b) (c, d) = (a + c, b + d)"

fun vsub :: "vec \<Rightarrow> vec \<Rightarrow> vec" where
  "vsub (a, b) (c, d) = (a - c, b - d)"

fun vneg :: "vec \<Rightarrow> vec" where
  "vneg (a, b) = (- a, - b)"

fun vscale :: "vec \<Rightarrow> real \<Rightarrow> vec" where
  "vscale (a, b) k = (a * k, b * k)"

fun vdiv :: "vec \<Rightarrow> real \<Rightarrow> vec" where
  "vdiv (a, b) k = (a / k, b / k)"

subsection \<open>\<^verbatim>\<open>length\<close>, \<^verbatim>\<open>normalize\<close>, \<^verbatim>\<open>energy\<close> (lines 30 to 48)\<close>

fun length_vec :: "vec \<Rightarrow> real" where
  "length_vec (x, y) = sqrt (x * x + y * y)"

definition normalize_vec :: "vec \<Rightarrow> vec" where
  "normalize_vec v =
     (let m = length_vec v
      in if m \<le> MIN_DIST then (0, 0) else vdiv v m)"

definition energy :: "vec \<Rightarrow> vec \<Rightarrow> real" where
  "energy pos vel =
     (let r = max (length_vec pos) MIN_DIST;
          KE = (5 / 10) * (fst vel * fst vel + snd vel * snd vel);
          PE = - G * EARTH_MASS / r
      in KE + PE)"

subsection \<open>The timestep of a frame (lines 119 to 121)\<close>

definition clamp_dt :: "real \<Rightarrow> real" where
  "clamp_dt dt_raw =
     (let dt = (if dt_raw \<le> 0 then 1 / 60 else dt_raw)
      in min dt MAX_DT)"

subsection \<open>The trail of a satellite (lines 219 to 226)\<close>

text \<open>
  A trail vertex is a position with the constant colour green; the model keeps the
  position. \<^verbatim>\<open>emplace_back\<close> appends, \<^verbatim>\<open>erase(begin, begin + removeCount)\<close> drops
  from the front.
\<close>

definition trail_append :: "vec list \<Rightarrow> vec \<Rightarrow> vec list" where
  "trail_append tr pos =
     (let tr1 = tr @ [pos]
      in if length tr1 > MAX_TRAIL
         then (let removeCount = length tr1 - MAX_TRAIL;
                   removeCount' = (if removeCount < 16 then 16 else removeCount)
               in drop removeCount' tr1)
         else tr1)"

subsection \<open>One integration step\<close>

text \<open>
  The body of the live physics loop after its collision test (lines 192 to 214): from the
  position and the velocity of a satellite and the timestep, the new position and the
  new velocity.
\<close>

definition live_step :: "vec \<Rightarrow> vec \<Rightarrow> real \<Rightarrow> vec \<times> vec" where
  "live_step pos vel dt =
     (let toEarth = vsub EARTH_CENTER pos;
          dist = length_vec toEarth;
          dir = normalize_vec toEarth;
          accel = G * EARTH_MASS / (dist * dist + MIN_DIST);
          a = vscale dir accel;
          tangent = (- snd dir, fst dir);
          a' = vadd a (vscale (vscale tangent J2_STRENGTH) dist);
          vel' = vadd vel (vscale a' dt);
          pos' = vadd pos (vscale vel' dt)
      in (pos', vel'))"

text \<open>
  The body of the loop of \<^verbatim>\<open>predictOrbit\<close> after its collision test (lines 60 to 75).
  The source writes \<^verbatim>\<open>toEarth = -p\<close> here.
\<close>

definition predict_step :: "vec \<Rightarrow> vec \<Rightarrow> real \<Rightarrow> vec \<times> vec" where
  "predict_step p v dt =
     (let toEarth = vneg p;
          dist = length_vec toEarth;
          dir = normalize_vec toEarth;
          accel = G * EARTH_MASS / (dist * dist + MIN_DIST);
          a = vscale dir accel;
          tangent = (- snd dir, fst dir);
          a' = vadd a (vscale (vscale tangent J2_STRENGTH) dist);
          v' = vadd v (vscale a' dt);
          p' = vadd p (vscale v' dt)
      in (p', v'))"

subsection \<open>\<^verbatim>\<open>predictOrbit\<close> (lines 50 to 81)\<close>

text \<open>
  The first argument of \<open>predict_loop\<close> is the number of iterations left,
  \<^verbatim>\<open>steps - i\<close>. The point appended is the one after the integration step; the
  colour of the vertex is constant and left out.
\<close>

fun predict_loop :: "nat \<Rightarrow> vec \<Rightarrow> vec \<Rightarrow> real \<Rightarrow> vec list" where
  "predict_loop 0 p v dt = []"
| "predict_loop (Suc n) p v dt =
     (let toEarth = vneg p;
          dist = length_vec toEarth
      in if dist \<le> EARTH_RADIUS then []
         else (let (p', v') = predict_step p v dt
               in p' # predict_loop n p' v' dt))"

text \<open>
  \<^verbatim>\<open>ghost.reserve(steps)\<close> converts the \<^verbatim>\<open>int\<close> to \<^verbatim>\<open>size_t\<close>; a negative
  \<^verbatim>\<open>steps\<close> becomes a size above \<^verbatim>\<open>max_size()\<close> and \<^verbatim>\<open>reserve\<close> throws
  \<^verbatim>\<open>std::length_error\<close>.
\<close>

datatype error = LengthError

definition predictOrbit :: "vec \<Rightarrow> vec \<Rightarrow> real \<Rightarrow> int \<Rightarrow> error + vec list" where
  "predictOrbit pos vel dt steps =
     (if steps < 0 then Inl LengthError
      else Inr (predict_loop (nat steps) pos vel dt))"

text \<open>
  The same function as a relation on its runs. A configuration of the loop is the
  values of the local variables \<^verbatim>\<open>i\<close>, \<^verbatim>\<open>p\<close>, \<^verbatim>\<open>v\<close> and \<^verbatim>\<open>ghost\<close>; \<open>predict_exec\<close>
  relates a configuration at the loop head to the vector the loop ends with. The rules
  are the three ways an iteration can go: the loop condition \<^verbatim>\<open>i < steps\<close> fails
  (line 58), the \<^verbatim>\<open>break\<close> is taken (line 62), or the body runs to its end and the
  loop goes on with \<^verbatim>\<open>i + 1\<close> (lines 64 to 77). The function has no static local
  and the globals it reads are constants, so a run has no other state.
\<close>

inductive predict_exec ::
  "real \<Rightarrow> int \<Rightarrow> int \<Rightarrow> vec \<Rightarrow> vec \<Rightarrow> vec list \<Rightarrow> vec list \<Rightarrow> bool"
  for dt :: real and steps :: int where
  Exit: "\<not> i < steps \<Longrightarrow> predict_exec dt steps i p v ghost ghost"
| Break: "i < steps \<Longrightarrow> length_vec (vneg p) \<le> EARTH_RADIUS
          \<Longrightarrow> predict_exec dt steps i p v ghost ghost"
| Iter: "i < steps \<Longrightarrow> \<not> length_vec (vneg p) \<le> EARTH_RADIUS
          \<Longrightarrow> predict_step p v dt = (p', v')
          \<Longrightarrow> predict_exec dt steps (i + 1) p' v' (ghost @ [p']) out
          \<Longrightarrow> predict_exec dt steps i p v ghost out"

code_pred predict_exec .

text \<open>A call: \<^verbatim>\<open>reserve\<close> throws on a negative \<^verbatim>\<open>steps\<close>; otherwise the loop runs
  from \<^verbatim>\<open>i = 0\<close> on copies of the arguments and an empty vector, which is returned.\<close>

inductive predictOrbit_run :: "vec \<Rightarrow> vec \<Rightarrow> real \<Rightarrow> int \<Rightarrow> error + vec list \<Rightarrow> bool" where
  Throw: "steps < 0 \<Longrightarrow> predictOrbit_run pos vel dt steps (Inl LengthError)"
| Return: "\<not> steps < 0 \<Longrightarrow> predict_exec dt steps 0 pos vel [] out
          \<Longrightarrow> predictOrbit_run pos vel dt steps (Inr out)"

code_pred predictOrbit_run .

subsection \<open>Satellites and the state of the main loop\<close>

text \<open>
  Of \<^verbatim>\<open>sf::CircleShape shape\<close> the physics reads and writes the position only
  (\<^verbatim>\<open>getPosition\<close>, \<^verbatim>\<open>setPosition\<close>); radius, colour and origin are for drawing.
  The state of the main loop the physics touches is the vector \<^verbatim>\<open>sats\<close>, the counter
  \<^verbatim>\<open>energyCounter\<close> (an \<^verbatim>\<open>int\<close>, taken unbounded here) and the energies printed on
  the standard output.
\<close>

record Satellite =
  position :: vec
  velocity :: vec
  trail :: "vec list"
  alive :: bool

record world =
  sats :: "Satellite list"
  energyCounter :: int
  printed :: "real list"

text \<open>The starter satellite (lines 101 to 111) and the state before the first frame.\<close>

definition starter :: Satellite where
  "starter =
     \<lparr>position = (350, 0),
      velocity = (0, sqrt (G * EARTH_MASS / 350) * ORBIT_SPEED_SCALE),
      trail = [],
      alive = True\<rparr>"

definition initial_world :: world where
  "initial_world = \<lparr>sats = [starter], energyCounter = 0, printed = []\<rparr>"

text \<open>A left click at the world position \<open>worldPos\<close> (lines 148 to 170).\<close>

definition spawn :: "vec \<Rightarrow> world \<Rightarrow> world" where
  "spawn worldPos w =
     (let r = length_vec (vsub worldPos EARTH_CENTER)
      in if r > EARTH_RADIUS + 5
         then (let dir = normalize_vec (vsub worldPos EARTH_CENTER);
                   tangent = (- snd dir, fst dir);
                   v = sqrt (G * EARTH_MASS / max r MIN_DIST) * ORBIT_SPEED_SCALE;
                   ns = \<lparr>position = worldPos, velocity = vscale tangent v,
                         trail = [], alive = True\<rparr>
               in w\<lparr>sats := sats w @ [ns]\<rparr>)
         else w)"

text \<open>
  One iteration of the physics loop (lines 188 to 233) at index \<open>i\<close>. A dead satellite
  is erased; a live one within the radius is marked dead and nothing else is done; any
  other is integrated, its trail extended, the counter incremented and the energy
  printed on every 200th count.
\<close>

definition physics_body :: "real \<Rightarrow> nat \<Rightarrow> world \<Rightarrow> world" where
  "physics_body dt i w =
     (let sat = sats w ! i
      in if \<not> alive sat then w\<lparr>sats := take i (sats w) @ drop (Suc i) (sats w)\<rparr>
         else
           (let pos = position sat;
                toEarth = vsub EARTH_CENTER pos;
                dist = length_vec toEarth
            in if dist \<le> EARTH_RADIUS
               then w\<lparr>sats := (sats w)[i := sat\<lparr>alive := False\<rparr>]\<rparr>
               else
                 (let (pos', vel') = live_step pos (velocity sat) dt;
                      sat' = sat\<lparr>position := pos', velocity := vel',
                                 trail := trail_append (trail sat) pos'\<rparr>;
                      c = energyCounter w + 1
                  in w\<lparr>sats := (sats w)[i := sat'],
                       energyCounter := c,
                       printed := (if c mod 200 = 0 then printed w @ [energy pos' vel']
                                   else printed w)\<rparr>)))"

text \<open>
  The loop runs \<open>i\<close> from \<open>size - 1\<close> down to 0 (line 186); \<open>physics_loop dt n\<close> runs
  the iterations for the indices \<open>n - 1\<close> down to 0.
\<close>

fun physics_loop :: "real \<Rightarrow> nat \<Rightarrow> world \<Rightarrow> world" where
  "physics_loop dt 0 w = w"
| "physics_loop dt (Suc i) w = physics_loop dt i (physics_body dt i w)"

definition physics_update :: "real \<Rightarrow> world \<Rightarrow> world" where
  "physics_update dt w = physics_loop dt (length (sats w)) w"

text \<open>The predicted path drawn in a frame (lines 242 to 247): none when \<^verbatim>\<open>sats\<close> is empty.\<close>

definition frame_ghost :: "world \<Rightarrow> (error + vec list) option" where
  "frame_ghost w =
     (if sats w \<noteq> []
      then Some (predictOrbit (position (sats w ! 0)) (velocity (sats w ! 0)) (2 / 100) 400)
      else None)"

text \<open>
  The same lines as a relation between the state of the program and what a run of the
  call returns.
\<close>

inductive frame_predict :: "world \<Rightarrow> (error + vec list) option \<Rightarrow> bool" where
  NoSat: "sats w = [] \<Longrightarrow> frame_predict w None"
| Call: "sats w \<noteq> []
          \<Longrightarrow> predictOrbit_run (position (sats w ! 0)) (velocity (sats w ! 0)) (2 / 100) 400 r
          \<Longrightarrow> frame_predict w (Some r)"

code_pred frame_predict .

text \<open>
  What one iteration of the physics loop does to a satellite, read off \<open>physics_body\<close>:
  \<open>None\<close> for the erased one.
\<close>

definition sat_update :: "real \<Rightarrow> Satellite \<Rightarrow> Satellite option" where
  "sat_update dt sat =
     (if \<not> alive sat then None
      else if length_vec (vsub EARTH_CENTER (position sat)) \<le> EARTH_RADIUS
           then Some (sat\<lparr>alive := False\<rparr>)
           else Some (sat\<lparr>position := fst (live_step (position sat) (velocity sat) dt),
                          velocity := snd (live_step (position sat) (velocity sat) dt),
                          trail := trail_append (trail sat)
                                     (fst (live_step (position sat) (velocity sat) dt))\<rparr>))"

section \<open>Vector helpers\<close>

lemma length_vec_nonneg: "0 \<le> length_vec v"
  by (cases v) simp

lemma length_vec_axis_x: "length_vec (a, 0) = \<bar>a\<bar>"
  by simp

lemma length_vec_axis_y: "length_vec (0, b) = \<bar>b\<bar>"
  by simp

lemma length_vec_vdiv:
  assumes "0 < k"
  shows "length_vec (vdiv v k) = length_vec v / k"
proof (cases v)
  case (Pair x y)
  have "(x / k) * (x / k) + (y / k) * (y / k) = (x * x + y * y) / (k * k)"
    by (simp add: add_divide_distrib)
  then have "sqrt ((x / k) * (x / k) + (y / k) * (y / k)) = sqrt (x * x + y * y) / sqrt (k * k)"
    by (simp add: real_sqrt_divide)
  also have "sqrt (k * k) = k"
    using assms by simp
  finally show ?thesis
    using Pair by simp
qed

lemmas cdefs = EARTH_CENTER_def G_def EARTH_MASS_def J2_STRENGTH_def EARTH_RADIUS_def
  MIN_DIST_def MAX_DT_def ORBIT_SPEED_SCALE_def

lemma length_vec_le_iff:
  "0 \<le> r \<Longrightarrow> length_vec (x, y) \<le> r \<longleftrightarrow> x * x + y * y \<le> r * r"
  using real_sqrt_le_iff [of "x * x + y * y" "r * r"] by simp

lemma vneg_vsub: "vneg (vsub p c) = vsub c p"
  by (cases p, cases c) simp

lemma vadd_vsub_shift: "vadd c (vadd (vsub p c) x) = vadd p x"
  by (cases p, cases c, cases x) simp

text \<open>
  The two step functions differ in the point the vector \<^verbatim>\<open>toEarth\<close> is measured from
  and in nothing else: the live step about \<open>EARTH_CENTER\<close> is the predictor's step
  about the origin, shifted.
\<close>

lemma live_step_shift:
  "live_step p v dt =
     (vadd EARTH_CENTER (fst (predict_step (vsub p EARTH_CENTER) v dt)),
      snd (predict_step (vsub p EARTH_CENTER) v dt))"
  by (simp add: live_step_def predict_step_def Let_def vneg_vsub vadd_vsub_shift)

text \<open>The energy function measures \<open>r\<close> from the origin of the world coordinates.\<close>

lemma energy_formula:
  "energy pos vel =
     (1 / 2) * (length_vec vel)\<^sup>2 - G * EARTH_MASS / max (length_vec pos) MIN_DIST"
  by (cases vel) (simp add: energy_def Let_def power2_eq_square)

lemma length_vec_eqI:
  assumes "0 \<le> r" and "x * x + y * y = r * r"
  shows "length_vec (x, y) = r"
  using assms by simp

lemma length_vec_vscale: "length_vec (vscale v k) = length_vec v * \<bar>k\<bar>"
proof (cases v)
  case (Pair x y)
  have "(x * k) * (x * k) + (y * k) * (y * k) = (x * x + y * y) * (k * k)"
    by (simp add: algebra_simps)
  then have "sqrt ((x * k) * (x * k) + (y * k) * (y * k)) = sqrt (x * x + y * y) * sqrt (k * k)"
    by (simp add: real_sqrt_mult)
  then show ?thesis
    using Pair by simp
qed

lemma length_vec_rot: "length_vec (- snd d, fst d) = length_vec d"
  by (cases d) (simp add: add.commute)

lemma normalize_vec_unit:
  assumes big: "MIN_DIST < length_vec v"
  shows "length_vec (normalize_vec v) = 1"
proof -
  have "0 < length_vec v"
    using big by (simp add: MIN_DIST_def)
  then show ?thesis
    using big by (simp add: normalize_vec_def length_vec_vdiv)
qed

section \<open>The click spawn\<close>

text \<open>
  A click within \<open>EARTH_RADIUS + 5\<close> of \<open>EARTH_CENTER\<close> changes nothing. A click
  farther out appends one satellite at the clicked position, alive, with an empty trail;
  its velocity has the circular-orbit magnitude for the distance to \<open>EARTH_CENTER\<close>,
  times \<open>ORBIT_SPEED_SCALE\<close>, and is perpendicular to the radius.
\<close>

lemma spawn_reject:
  "length_vec (vsub worldPos EARTH_CENTER) \<le> EARTH_RADIUS + 5 \<Longrightarrow> spawn worldPos w = w"
  by (simp add: spawn_def)

lemma spawn_accept:
  assumes far: "EARTH_RADIUS + 5 < length_vec (vsub worldPos EARTH_CENTER)"
  shows "\<exists>ns. spawn worldPos w = w\<lparr>sats := sats w @ [ns]\<rparr>
           \<and> position ns = worldPos \<and> trail ns = [] \<and> alive ns
           \<and> length_vec (velocity ns)
               = sqrt (G * EARTH_MASS / max (length_vec (vsub worldPos EARTH_CENTER)) MIN_DIST)
                   * ORBIT_SPEED_SCALE
           \<and> fst (velocity ns) * fst (vsub worldPos EARTH_CENTER)
               + snd (velocity ns) * snd (vsub worldPos EARTH_CENTER) = 0"
proof -
  let ?d = "vsub worldPos EARTH_CENTER"
  let ?r = "length_vec ?d"
  let ?dir = "normalize_vec ?d"
  let ?v = "sqrt (G * EARTH_MASS / max ?r MIN_DIST) * ORBIT_SPEED_SCALE"
  let ?ns = "\<lparr>position = worldPos, velocity = vscale (- snd ?dir, fst ?dir) ?v,
              trail = [], alive = True\<rparr>"
  have big: "MIN_DIST < ?r"
    using far by (simp add: cdefs)
  have v0: "0 \<le> ?v"
    by (simp add: cdefs)
  have eq: "spawn worldPos w = w\<lparr>sats := sats w @ [?ns]\<rparr>"
    using far by (simp add: spawn_def Let_def)
  have "length_vec (vscale (- snd ?dir, fst ?dir) ?v) = length_vec ?dir * \<bar>?v\<bar>"
    by (simp only: length_vec_vscale length_vec_rot)
  then have len: "length_vec (velocity ?ns) = ?v"
    using normalize_vec_unit [OF big] v0 by simp
  have dir: "?dir = vdiv ?d ?r"
    using big by (simp add: normalize_vec_def)
  obtain a b where d: "?d = (a, b)" by (cases ?d)
  have dir': "normalize_vec (a, b) = (a / length_vec (a, b), b / length_vec (a, b))"
    using dir by (simp add: d del: length_vec.simps)
  have perp: "fst (velocity ?ns) * fst ?d + snd (velocity ?ns) * snd ?d = 0"
    by (simp add: d dir' del: length_vec.simps)
  show ?thesis
    using eq len perp by (intro exI [of _ ?ns]) simp
qed

section \<open>The physics loop, satellite by satellite\<close>

lemma map_filter_append_sat:
  "List.map_filter f (xs @ ys) = List.map_filter f xs @ List.map_filter f ys"
  by (simp add: List.map_filter_def)

lemma set_map_filter_sat:
  "y \<in> set (List.map_filter f xs) \<longleftrightarrow> (\<exists>x \<in> set xs. f x = Some y)"
  by (induction xs) (auto simp: List.map_filter_simps split: option.splits)

lemma length_map_filter_sat:
  "length (List.map_filter f xs) = length (filter (\<lambda>x. f x \<noteq> None) xs)"
  by (simp add: List.map_filter_def)

lemma sat_update_None: "sat_update dt s = None \<longleftrightarrow> \<not> alive s"
  by (simp add: sat_update_def)

text \<open>One iteration replaces the satellite at its index by what \<open>sat_update\<close> gives.\<close>

lemma physics_body_sats:
  assumes "i < length (sats w)"
  shows "sats (physics_body dt i w) =
           take i (sats w) @ (case sat_update dt (sats w ! i) of None \<Rightarrow> [] | Some s \<Rightarrow> [s])
             @ drop (Suc i) (sats w)"
  using assms
  by (simp add: physics_body_def sat_update_def Let_def upd_conv_take_nth_drop
      split: prod.splits)

text \<open>
  The loop invariant: with the indices from \<open>i\<close> upwards done, the satellites below
  \<open>i\<close> are still to be updated and an erase at \<open>i\<close> moves only what is done. The index
  stays within the vector.
\<close>

lemma physics_loop_sats:
  "i \<le> length (sats w) \<Longrightarrow>
     sats (physics_loop dt i w)
       = List.map_filter (sat_update dt) (take i (sats w)) @ drop i (sats w)"
proof (induction i arbitrary: w)
  case 0
  then show ?case by (simp add: List.map_filter_def)
next
  case (Suc i)
  let ?xs = "sats w"
  let ?mid = "case sat_update dt (?xs ! i) of None \<Rightarrow> [] | Some s \<Rightarrow> [s]"
  let ?w' = "physics_body dt i w"
  have lt: "i < length ?xs" using Suc.prems by simp
  have body: "sats ?w' = take i ?xs @ ?mid @ drop (Suc i) ?xs"
    using lt by (rule physics_body_sats)
  have len: "length (take i ?xs) = i" using lt by simp
  have le: "i \<le> length (sats ?w')"
    using len by (simp add: body)
  have tk: "take i (sats ?w') = take i ?xs"
    using len by (simp add: body)
  have dr: "drop i (sats ?w') = ?mid @ drop (Suc i) ?xs"
    using len by (simp add: body)
  have mid: "List.map_filter (sat_update dt) [?xs ! i] = ?mid"
    by (simp add: List.map_filter_def split: option.splits)
  have "sats (physics_loop dt (Suc i) w) = sats (physics_loop dt i ?w')"
    by simp
  also have "\<dots> = List.map_filter (sat_update dt) (take i ?xs) @ ?mid @ drop (Suc i) ?xs"
    using Suc.IH [OF le] by (simp only: tk dr)
  also have "\<dots> = List.map_filter (sat_update dt) (take (Suc i) ?xs) @ drop (Suc i) ?xs"
    using lt by (simp only: take_Suc_conv_app_nth map_filter_append_sat mid append_assoc)
  finally show ?case .
qed

lemma physics_update_sats:
  "sats (physics_update dt w) = List.map_filter (sat_update dt) (sats w)"
  using physics_loop_sats [of "length (sats w)" w dt]
  by (simp add: physics_update_def)

section \<open>The loop of the predictor\<close>

lemma predict_loop_length: "length (predict_loop n p v dt) \<le> n"
  by (induction n arbitrary: p v) (auto simp: Let_def split: prod.splits)

lemma predict_loop_collides:
  "length_vec (vneg p) \<le> EARTH_RADIUS \<Longrightarrow> predict_loop n p v dt = []"
  by (cases n) simp_all

lemma predict_loop_nonempty:
  "predict_loop n p v dt \<noteq> [] \<Longrightarrow> EARTH_RADIUS < length_vec (vneg p)"
  using predict_loop_collides [of p n v dt] by fastforce

lemma predict_loop_inner:
  "Suc i < length (predict_loop n p v dt) \<Longrightarrow>
     EARTH_RADIUS < length_vec (vneg (predict_loop n p v dt ! i))"
proof (induction n arbitrary: p v i)
  case 0
  then show ?case by simp
next
  case (Suc n)
  obtain p' v' where st: "predict_step p v dt = (p', v')"
    by (cases "predict_step p v dt")
  have far: "\<not> length_vec (vneg p) \<le> EARTH_RADIUS"
    using Suc.prems predict_loop_collides [of p "Suc n" v dt] by fastforce
  have out: "predict_loop (Suc n) p v dt = p' # predict_loop n p' v' dt"
    using far st by simp
  show ?case
  proof (cases i)
    case 0
    have "predict_loop n p' v' dt \<noteq> []"
      using Suc.prems 0 out by auto
    then have "EARTH_RADIUS < length_vec (vneg p')"
      by (rule predict_loop_nonempty)
    then show ?thesis
      using 0 out by simp
  next
    case (Suc j)
    have "Suc j < length (predict_loop n p' v' dt)"
      using Suc.prems Suc out by simp
    then have "EARTH_RADIUS < length_vec (vneg (predict_loop n p' v' dt ! j))"
      by (rule Suc.IH)
    then show ?thesis
      using Suc out by simp
  qed
qed

lemma predict_loop_one_then_stop:
  assumes far: "\<not> length_vec (vneg p) \<le> EARTH_RADIUS"
    and step: "predict_step p v dt = (p', v')"
    and near: "length_vec (vneg p') \<le> EARTH_RADIUS"
  shows "predict_loop (Suc n) p v dt = [p']"
proof -
  have "predict_loop n p' v' dt = []"
    using near by (rule predict_loop_collides)
  then show ?thesis
    using far step by simp
qed

lemma predict_loop_first:
  assumes far: "\<not> length_vec (vneg p) \<le> EARTH_RADIUS"
    and step: "predict_step p v dt = (p', v')"
  shows "predict_loop (Suc n) p v dt \<noteq> [] \<and> hd (predict_loop (Suc n) p v dt) = p'"
  using far step by simp

text \<open>
  What the loop as written gives, with its collision test measuring from the origin of
  the world coordinates: at most \<open>steps\<close> positions, none when the test holds of the
  input position, and every position but the last one passed the test.
\<close>

lemma predictOrbit_origin_test:
  assumes "0 \<le> steps"
  shows "\<exists>out. predictOrbit pos vel dt steps = Inr out
           \<and> length out \<le> nat steps
           \<and> (length_vec (vneg pos) \<le> EARTH_RADIUS \<longrightarrow> out = [])
           \<and> (\<forall>i. Suc i < length out \<longrightarrow> EARTH_RADIUS < length_vec (vneg (out ! i)))"
proof (intro exI conjI allI impI)
  show "predictOrbit pos vel dt steps = Inr (predict_loop (nat steps) pos vel dt)"
    using assms by (simp add: predictOrbit_def)
  show "length (predict_loop (nat steps) pos vel dt) \<le> nat steps"
    by (rule predict_loop_length)
  show "predict_loop (nat steps) pos vel dt = []" if "length_vec (vneg pos) \<le> EARTH_RADIUS"
    using that by (rule predict_loop_collides)
  show "EARTH_RADIUS < length_vec (vneg (predict_loop (nat steps) pos vel dt ! i))"
    if "Suc i < length (predict_loop (nat steps) pos vel dt)" for i
    using that by (rule predict_loop_inner)
qed

text \<open>
  The point appended in an iteration is the one after the integration step, and it is
  not tested before it is appended. From (90.1, 0) with velocity (-13, 0) the only
  point returned is within 90 of the origin. From a point 90.1 away from
  \<open>EARTH_CENTER\<close>, moving towards it at 13 units per second, the first point returned
  is within 90 of \<open>EARTH_CENTER\<close>.
\<close>

lemma predict_last_point_untested:
  "predictOrbit (901 / 10, 0) (- 13, 0) (2 / 100) 400
     = Inr [(18233042706 / 202950275, - (901 / 500000000))]
   \<and> length_vec (18233042706 / 202950275, - (901 / 500000000)) \<le> EARTH_RADIUS
   \<and> \<not> isl (predictOrbit (16802 / 25, 25203 / 50) (- (52 / 5), - (39 / 5)) (2 / 100) 400)
   \<and> projr (predictOrbit (16802 / 25, 25203 / 50) (- (52 / 5), - (39 / 5)) (2 / 100) 400) \<noteq> []
   \<and> hd (projr (predictOrbit (16802 / 25, 25203 / 50) (- (52 / 5), - (39 / 5)) (2 / 100) 400))
       = (1185464429703951181233 / 1764420027500000000,
          222274571305182939589 / 441105006875000000)
   \<and> length_vec (vsub (1185464429703951181233 / 1764420027500000000,
                        222274571305182939589 / 441105006875000000) EARTH_CENTER)
       \<le> EARTH_RADIUS"
proof (intro conjI)
  have n: "nat 400 = Suc 399"
    by simp
  have far: "\<not> length_vec (vneg (901 / 10, 0)) \<le> EARTH_RADIUS"
    by (simp add: cdefs length_vec_le_iff del: length_vec.simps)
  have step: "predict_step (901 / 10, 0) (- 13, 0) (2 / 100)
      = ((18233042706 / 202950275, - (901 / 500000000)),
         (- (105554143 / 8118011), - (901 / 10000000)))"
    by (simp add: predict_step_def normalize_vec_def cdefs Let_def length_vec_axis_x
        del: length_vec.simps)
  have near: "length_vec (vneg (18233042706 / 202950275, - (901 / 500000000))) \<le> EARTH_RADIUS"
    by (simp add: cdefs length_vec_le_iff del: length_vec.simps)
  have "predict_loop (nat 400) (901 / 10, 0) (- 13, 0) (2 / 100)
      = [(18233042706 / 202950275, - (901 / 500000000))]"
    unfolding n using far step near by (rule predict_loop_one_then_stop)
  then show "predictOrbit (901 / 10, 0) (- 13, 0) (2 / 100) 400
     = Inr [(18233042706 / 202950275, - (901 / 500000000))]"
    by (simp add: predictOrbit_def)
  show "length_vec (18233042706 / 202950275, - (901 / 500000000)) \<le> EARTH_RADIUS"
    by (simp add: cdefs length_vec_le_iff del: length_vec.simps)
  have len: "length_vec (- (16802 / 25), - (25203 / 50)) = 8401 / 10"
    by (rule length_vec_eqI) simp_all
  have far2: "\<not> length_vec (vneg (16802 / 25, 25203 / 50)) \<le> EARTH_RADIUS"
    by (simp add: len cdefs del: length_vec.simps)
  have step2: "predict_step (16802 / 25, 25203 / 50) (- (52 / 5), - (39 / 5)) (2 / 100)
      = ((1185464429703951181233 / 1764420027500000000,
          222274571305182939589 / 441105006875000000),
         (- (366982378248818767 / 35288400550000000),
          - (68818460229560411 / 8822100137500000)))"
    by (simp add: predict_step_def normalize_vec_def cdefs Let_def len del: length_vec.simps)
  have first: "predict_loop (nat 400) (16802 / 25, 25203 / 50) (- (52 / 5), - (39 / 5)) (2 / 100) \<noteq> []
      \<and> hd (predict_loop (nat 400) (16802 / 25, 25203 / 50) (- (52 / 5), - (39 / 5)) (2 / 100))
        = (1185464429703951181233 / 1764420027500000000,
           222274571305182939589 / 441105006875000000)"
    unfolding n using far2 step2 by (rule predict_loop_first)
  have ret: "predictOrbit (16802 / 25, 25203 / 50) (- (52 / 5), - (39 / 5)) (2 / 100) 400
      = Inr (predict_loop (nat 400) (16802 / 25, 25203 / 50) (- (52 / 5), - (39 / 5)) (2 / 100))"
    by (simp add: predictOrbit_def)
  show "\<not> isl (predictOrbit (16802 / 25, 25203 / 50) (- (52 / 5), - (39 / 5)) (2 / 100) 400)"
    by (simp only: ret sum.disc not_False_eq_True)
  show "projr (predictOrbit (16802 / 25, 25203 / 50) (- (52 / 5), - (39 / 5)) (2 / 100) 400) \<noteq> []"
    unfolding ret sum.sel using first by (rule conjunct1)
  show "hd (projr (predictOrbit (16802 / 25, 25203 / 50) (- (52 / 5), - (39 / 5)) (2 / 100) 400))
       = (1185464429703951181233 / 1764420027500000000,
          222274571305182939589 / 441105006875000000)"
    unfolding ret sum.sel using first by (rule conjunct2)
  show "length_vec (vsub (1185464429703951181233 / 1764420027500000000,
                        222274571305182939589 / 441105006875000000) EARTH_CENTER)
       \<le> EARTH_RADIUS"
    by (simp add: cdefs length_vec_le_iff del: length_vec.simps)
qed

section \<open>Runs of the predictor\<close>

text \<open>Two runs of the loop from one configuration end with the same vector.\<close>

lemma predict_exec_determ:
  "predict_exec dt steps i p v ghost out1 \<Longrightarrow> predict_exec dt steps i p v ghost out2
     \<Longrightarrow> out2 = out1"
proof (induction arbitrary: out2 rule: predict_exec.induct)
  case (Exit i p v ghost)
  from Exit.prems Exit.hyps show ?case
    by cases simp_all
next
  case (Break i p v ghost)
  from Break.prems Break.hyps show ?case
    by cases simp_all
next
  case (Iter i p v p' v' ghost out)
  note hyps = Iter.hyps and IH = Iter.IH
  from Iter.prems show ?case
  proof cases
    case Exit
    with hyps show ?thesis by simp
  next
    case Break
    with hyps show ?thesis by simp
  next
    case (Iter p2 v2)
    from Iter hyps have "p2 = p'" and "v2 = v'"
      by simp_all
    with Iter have "predict_exec dt steps (i + 1) p' v' (ghost @ [p']) out2"
      by simp
    then show ?thesis
      by (rule IH)
  qed
qed

text \<open>
  Every configuration has a run, and it ends with what \<open>predict_loop\<close> computes for the
  iterations left.
\<close>

lemma predict_exec_loop:
  "nat (steps - i) = n \<Longrightarrow>
     predict_exec dt steps i p v ghost (ghost @ predict_loop n p v dt)"
proof (induction n arbitrary: i p v ghost)
  case 0
  then have "\<not> i < steps" by simp
  then have "predict_exec dt steps i p v ghost ghost"
    by (rule predict_exec.Exit)
  then show ?case by simp
next
  case (Suc n)
  then have lt: "i < steps" by simp
  show ?case
  proof (cases "length_vec (vneg p) \<le> EARTH_RADIUS")
    case True
    with lt have "predict_exec dt steps i p v ghost ghost"
      by (rule predict_exec.Break)
    with True show ?thesis by simp
  next
    case False
    obtain p' v' where st: "predict_step p v dt = (p', v')"
      by (cases "predict_step p v dt")
    have "nat (steps - (i + 1)) = n"
      using Suc.prems by simp
    then have "predict_exec dt steps (i + 1) p' v' (ghost @ [p'])
        ((ghost @ [p']) @ predict_loop n p' v' dt)"
      by (rule Suc.IH)
    with lt False st have "predict_exec dt steps i p v ghost
        ((ghost @ [p']) @ predict_loop n p' v' dt)"
      by (rule predict_exec.Iter)
    with False st show ?thesis by simp
  qed
qed

lemma predictOrbit_run_function:
  "predictOrbit_run pos vel dt steps (predictOrbit pos vel dt steps)"
proof (cases "steps < 0")
  case True
  then show ?thesis
    by (simp add: predictOrbit_def predictOrbit_run.Throw)
next
  case False
  have "predict_exec dt steps 0 pos vel [] ([] @ predict_loop (nat steps) pos vel dt)"
    by (rule predict_exec_loop) simp
  then have "predict_exec dt steps 0 pos vel [] (predict_loop (nat steps) pos vel dt)"
    by simp
  with False have "predictOrbit_run pos vel dt steps (Inr (predict_loop (nat steps) pos vel dt))"
    by (rule predictOrbit_run.Return)
  with False show ?thesis
    by (simp add: predictOrbit_def)
qed

lemma predictOrbit_run_determ:
  assumes "predictOrbit_run pos vel dt steps r1" and "predictOrbit_run pos vel dt steps r2"
  shows "r1 = r2"
  using assms(1)
proof cases
  case Throw
  from assms(2) show ?thesis
  proof cases
    case Throw
    with \<open>r1 = Inl LengthError\<close> show ?thesis by simp
  next
    case (Return out)
    with \<open>steps < 0\<close> show ?thesis by simp
  qed
next
  case (Return out1)
  note r1 = Return
  from assms(2) show ?thesis
  proof cases
    case Throw
    with r1 show ?thesis by simp
  next
    case (Return out2)
    from r1(3) Return(3) have "out2 = out1"
      by (rule predict_exec_determ)
    with r1(1) Return(1) show ?thesis by simp
  qed
qed

lemma frame_predict_function: "frame_predict w (frame_ghost w)"
proof (cases "sats w = []")
  case True
  then show ?thesis
    by (simp add: frame_ghost_def frame_predict.NoSat)
next
  case False
  have "predictOrbit_run (position (sats w ! 0)) (velocity (sats w ! 0)) (2 / 100) 400
      (predictOrbit (position (sats w ! 0)) (velocity (sats w ! 0)) (2 / 100) 400)"
    by (rule predictOrbit_run_function)
  with False have "frame_predict w
      (Some (predictOrbit (position (sats w ! 0)) (velocity (sats w ! 0)) (2 / 100) 400))"
    by (rule frame_predict.Call)
  with False show ?thesis
    by (simp add: frame_ghost_def)
qed

text \<open>
  The predicted path of a frame depends on the state of the program through the
  position and the velocity of the first satellite only.
\<close>

lemma frame_predict_determ:
  assumes ne: "sats w1 \<noteq> []" "sats w2 \<noteq> []"
    and pos: "position (sats w1 ! 0) = position (sats w2 ! 0)"
    and vel: "velocity (sats w1 ! 0) = velocity (sats w2 ! 0)"
    and run1: "frame_predict w1 g1"
    and run2: "frame_predict w2 g2"
  shows "g1 = g2"
  using run1
proof cases
  case NoSat
  with ne show ?thesis by simp
next
  case (Call r1)
  note c1 = Call
  from run2 show ?thesis
  proof cases
    case NoSat
    with ne show ?thesis by simp
  next
    case (Call r2)
    from c1(3) have "predictOrbit_run (position (sats w2 ! 0)) (velocity (sats w2 ! 0))
        (2 / 100) 400 r1"
      by (simp only: pos vel)
    from this Call(3) have "r1 = r2"
      by (rule predictOrbit_run_determ)
    with c1(1) Call(1) show ?thesis by simp
  qed
qed

section \<open>The timestep\<close>

text \<open>The timestep has no positive lower bound: below any \<open>eps\<close> some raw delta is used as it is.\<close>

lemma clamp_dt_no_lower_bound:
  assumes "0 < eps"
  shows "clamp_dt (min eps MAX_DT / 2) < eps"
  using assms by (simp add: clamp_dt_def MAX_DT_def min_def)

section \<open>Claims\<close>

text \<open>
  C9. \<^verbatim>\<open>normalize(v)\<close> returns \<open>v / |v|\<close>, a vector of length one, when
  \<open>|v| > MIN_DIST\<close>, and the zero vector when \<open>|v| \<le> MIN_DIST\<close>.
\<close>

theorem normalize_vec_spec:
  "(MIN_DIST < length_vec v \<longrightarrow>
      normalize_vec v = vdiv v (length_vec v) \<and> length_vec (normalize_vec v) = 1)
   \<and> (length_vec v \<le> MIN_DIST \<longrightarrow> normalize_vec v = (0, 0))"
proof (intro conjI impI)
  assume big: "MIN_DIST < length_vec v"
  then show "normalize_vec v = vdiv v (length_vec v)"
    by (simp add: normalize_vec_def)
  have pos: "0 < length_vec v"
    using big by (simp add: MIN_DIST_def)
  show "length_vec (normalize_vec v) = 1"
    using big pos by (simp add: normalize_vec_def length_vec_vdiv)
next
  assume "length_vec v \<le> MIN_DIST"
  then show "normalize_vec v = (0, 0)"
    by (simp add: normalize_vec_def)
qed

theorem normalize_vec_spec_witness:
  "MIN_DIST < length_vec (0, 5) \<and> normalize_vec (0, 5) = (0, 1)
   \<and> length_vec (normalize_vec (0, 5)) = 1
   \<and> length_vec (0, 0) \<le> MIN_DIST \<and> normalize_vec (0, 0) = (0, 0)"
proof -
  have big: "MIN_DIST < length_vec (0, 5)"
    by (simp add: MIN_DIST_def)
  have small: "length_vec (0, 0) \<le> MIN_DIST"
    by (simp add: MIN_DIST_def)
  from normalize_vec_spec [of "(0, 5)"] big
  have a: "normalize_vec (0, 5) = vdiv (0, 5) (length_vec (0, 5))"
    and b: "length_vec (normalize_vec (0, 5)) = 1"
    by blast+
  from normalize_vec_spec [of "(0, 0)"] small
  have c: "normalize_vec (0, 0) = (0, 0)"
    by blast
  from a have a': "normalize_vec (0, 5) = (0, 1)"
    by simp
  show ?thesis
    using big small a' b c by blast
qed

text \<open>
  C7, as the claim states it, fails: a positive raw delta below the epsilon
  \<open>MIN_DIST\<close> is used as it is, since the code has no lower clamp.
\<close>

theorem clamp_dt_below_epsilon:
  "clamp_dt (1 / 2000) = 1 / 2000 \<and> clamp_dt (1 / 2000) < MIN_DIST"
  by (simp add: clamp_dt_def MAX_DT_def MIN_DIST_def)

text \<open>
  C7, amended. The effective timestep lies in the half-open interval from 0 (excluded)
  to \<open>MAX_DT\<close> (included). A raw delta that is zero or negative is replaced by 1/60, a
  raw delta above \<open>MAX_DT\<close> becomes \<open>MAX_DT\<close>, and a positive raw delta of at most
  \<open>MAX_DT\<close> is used unchanged.
\<close>

theorem clamp_dt_range:
  "0 < clamp_dt d \<and> clamp_dt d \<le> MAX_DT
   \<and> (d \<le> 0 \<longrightarrow> clamp_dt d = 1 / 60)
   \<and> (MAX_DT < d \<longrightarrow> clamp_dt d = MAX_DT)
   \<and> (0 < d \<and> d \<le> MAX_DT \<longrightarrow> clamp_dt d = d)"
  by (simp add: clamp_dt_def MAX_DT_def min_def)

theorem clamp_dt_range_witness:
  "(-1 :: real) \<le> 0 \<and> clamp_dt (-1) = 1 / 60
   \<and> MAX_DT < 1 \<and> clamp_dt 1 = MAX_DT
   \<and> (0 :: real) < 1 / 100 \<and> 1 / 100 \<le> MAX_DT \<and> clamp_dt (1 / 100) = 1 / 100"
proof -
  have h1: "(-1 :: real) \<le> 0" by simp
  have h2: "MAX_DT < 1" by (simp add: MAX_DT_def)
  have h3: "(0 :: real) < 1 / 100 \<and> 1 / 100 \<le> MAX_DT" by (simp add: MAX_DT_def)
  from clamp_dt_range [of "-1"] h1 have a: "clamp_dt (-1) = 1 / 60" by blast
  from clamp_dt_range [of 1] h2 have b: "clamp_dt 1 = MAX_DT" by blast
  from clamp_dt_range [of "1 / 100"] h3 have c: "clamp_dt (1 / 100) = 1 / 100" by blast
  show ?thesis
    using h1 h2 h3 a b c by blast
qed

text \<open>
  C6. Appending a point to a trail puts the point at the back; when the length then
  exceeds \<open>MAX_TRAIL\<close> = 3000, a block of \<open>max (len - MAX_TRAIL) 16\<close> points is removed
  from the front. After any append the length is at most \<open>MAX_TRAIL\<close>, the result is a
  suffix of the old trail followed by the point (so the order is kept and the points
  kept are the most recent ones), and the new point is its last element.
\<close>

theorem trail_append_spec:
  "trail_append tr p =
     drop (if MAX_TRAIL < length (tr @ [p]) then max (length (tr @ [p]) - MAX_TRAIL) 16 else 0)
       (tr @ [p])
   \<and> length (trail_append tr p) \<le> MAX_TRAIL
   \<and> suffix (trail_append tr p) (tr @ [p])
   \<and> trail_append tr p \<noteq> []
   \<and> last (trail_append tr p) = p"
proof -
  let ?k = "if MAX_TRAIL < length (tr @ [p]) then max (length (tr @ [p]) - MAX_TRAIL) 16 else 0"
  have eq: "trail_append tr p = drop ?k (tr @ [p])"
    by (simp add: trail_append_def Let_def max_def)
  have less: "?k < length (tr @ [p])"
    by (auto simp: MAX_TRAIL_def max_def)
  have len: "length (drop ?k (tr @ [p])) \<le> MAX_TRAIL"
    by (auto simp: MAX_TRAIL_def max_def)
  have suf: "suffix (drop ?k (tr @ [p])) (tr @ [p])"
    by (rule suffix_drop)
  have ne: "drop ?k (tr @ [p]) \<noteq> []"
    using less by simp
  have "last (drop ?k (tr @ [p])) = last (tr @ [p])"
    using less by (rule last_drop)
  then have lst: "last (drop ?k (tr @ [p])) = p"
    by simp
  show ?thesis
    using eq len suf ne lst by simp
qed

text \<open>
  C2. The claim: the step of the orbit predictor and the step of the live integration
  are the same function of position, velocity and timestep, both measuring from the
  central body. The code evaluated at the position (0, 450), at rest, with timestep
  1/50: the live step accelerates towards \<open>EARTH_CENTER\<close> = (600, 450), the predictor's
  step towards the origin (0, 0), and the two results differ.
\<close>

theorem predict_step_differs:
  "live_step (0, 450) (0, 0) (1 / 50)
     = ((400 / 360000001, 112500003 / 250000), (20000 / 360000001, 3 / 5000))
   \<and> predict_step (0, 450) (0, 0) (1 / 50)
     = ((9 / 1000000, 91125000050 / 202500001), (9 / 20000, - (20000 / 202500001)))
   \<and> predict_step (0, 450) (0, 0) (1 / 50) \<noteq> live_step (0, 450) (0, 0) (1 / 50)"
  by (simp add: live_step_def predict_step_def normalize_vec_def cdefs Let_def)

text \<open>
  C4. The claim: the energy is \<open>0.5 * |v|\<^sup>2 - G * M / max r MIN_DIST\<close> with \<open>r\<close> the
  distance from the position to the central body. The code evaluated at the world
  position (0, 450), at rest: it returns -20/9, from \<open>r\<close> = 450, the distance to the
  origin; the distance to \<open>EARTH_CENTER\<close> is 600 and the claimed value is -5/3.
\<close>

theorem energy_about_origin:
  "energy (0, 450) (0, 0) = - (20 / 9)
   \<and> (5 / 10) * (0 * 0 + 0 * 0)
       - G * EARTH_MASS / max (length_vec (vsub (0, 450) EARTH_CENTER)) MIN_DIST = - (5 / 3)"
  by (simp add: energy_def cdefs Let_def)

text \<open>
  C1, as the claim states it, fails: a satellite at distance 90.5 from the centre moving
  inwards at 13 units per second is integrated in a tick of 1/20 s to a position within
  the radius 90, and is still alive at the end of that tick. The collision test of a tick
  reads the position before the integration.
\<close>

theorem alive_inside_after_tick:
  "alive (sats (physics_update (1 / 20)
        \<lparr>sats = [\<lparr>position = (1381 / 2, 450), velocity = (- 13, 0), trail = [], alive = True\<rparr>],
         energyCounter = 0, printed = []\<rparr>) ! 0)
   \<and> length_vec (vsub EARTH_CENTER (position (sats (physics_update (1 / 20)
        \<lparr>sats = [\<lparr>position = (1381 / 2, 450), velocity = (- 13, 0), trail = [], alive = True\<rparr>],
         energyCounter = 0, printed = []\<rparr>) ! 0))) \<le> EARTH_RADIUS"
  by (simp add: physics_update_def physics_body_def live_step_def normalize_vec_def cdefs Let_def
      length_vec_axis_x length_vec_le_iff del: length_vec.simps)

text \<open>
  C1, amended. A tick tests each satellite at the position it has before the
  integration. The satellites after a tick are, in order, the images of the satellites
  that were alive before it; those already dead are erased and no physics runs on them.
  A live satellite whose distance to \<open>EARTH_CENTER\<close> before the integration is at most
  \<open>EARTH_RADIUS\<close> has its alive flag cleared and nothing else changed; any other live
  satellite stays alive and is integrated by \<open>live_step\<close>, with its new position
  appended to its trail. The distance after the integration is not tested in that tick.
\<close>

theorem physics_update_alive:
  "sats (physics_update dt w) = List.map_filter (sat_update dt) (sats w)
   \<and> length (sats (physics_update dt w)) = length (filter alive (sats w))
   \<and> (\<forall>s' \<in> set (sats (physics_update dt w)). \<exists>s \<in> set (sats w). alive s \<and>
         (if length_vec (vsub EARTH_CENTER (position s)) \<le> EARTH_RADIUS
          then s' = s\<lparr>alive := False\<rparr>
          else alive s' \<and> (position s', velocity s') = live_step (position s) (velocity s) dt
               \<and> trail s' = trail_append (trail s) (position s')))"
proof (intro conjI ballI)
  show eq: "sats (physics_update dt w) = List.map_filter (sat_update dt) (sats w)"
    by (rule physics_update_sats)
  show "length (sats (physics_update dt w)) = length (filter alive (sats w))"
    by (simp add: eq length_map_filter_sat sat_update_None)
next
  fix s'
  assume "s' \<in> set (sats (physics_update dt w))"
  then obtain s where s: "s \<in> set (sats w)" and upd: "sat_update dt s = Some s'"
    by (auto simp: physics_update_sats set_map_filter_sat)
  from upd have al: "alive s"
    by (simp add: sat_update_def split: if_splits)
  show "\<exists>s \<in> set (sats w). alive s \<and>
         (if length_vec (vsub EARTH_CENTER (position s)) \<le> EARTH_RADIUS
          then s' = s\<lparr>alive := False\<rparr>
          else alive s' \<and> (position s', velocity s') = live_step (position s) (velocity s) dt
               \<and> trail s' = trail_append (trail s) (position s'))"
  proof (rule bexI [OF _ s], intro conjI)
    show "alive s" by (rule al)
    show "if length_vec (vsub EARTH_CENTER (position s)) \<le> EARTH_RADIUS
          then s' = s\<lparr>alive := False\<rparr>
          else alive s' \<and> (position s', velocity s') = live_step (position s) (velocity s) dt
               \<and> trail s' = trail_append (trail s) (position s')"
      using upd al by (auto simp: sat_update_def split: if_splits)
  qed
qed

text \<open>
  A tick of 1/50 s on three satellites: one already dead, one alive 50 units from the
  centre, one alive 600 units from it. The dead one is erased, the second is marked dead
  where it is, the third is integrated.
\<close>

theorem physics_update_alive_witness:
  "sats (physics_update (1 / 50)
      \<lparr>sats = [\<lparr>position = (0, 0), velocity = (0, 0), trail = [], alive = False\<rparr>,
               \<lparr>position = (600, 500), velocity = (1, 2), trail = [(1, 1)], alive = True\<rparr>,
               \<lparr>position = (0, 450), velocity = (0, 0), trail = [], alive = True\<rparr>],
       energyCounter = 0, printed = []\<rparr>)
   = [\<lparr>position = (600, 500), velocity = (1, 2), trail = [(1, 1)], alive = False\<rparr>,
      \<lparr>position = (400 / 360000001, 112500003 / 250000),
       velocity = (20000 / 360000001, 3 / 5000),
       trail = [(400 / 360000001, 112500003 / 250000)], alive = True\<rparr>]
   \<and> (\<exists>s \<in> set [\<lparr>position = (0, 0), velocity = (0, 0), trail = [], alive = False\<rparr>,
               \<lparr>position = (600, 500), velocity = (1, 2), trail = [(1, 1)], alive = True\<rparr>,
               \<lparr>position = (0, 450), velocity = (0, 0), trail = [], alive = True\<rparr>].
         alive s \<and> length_vec (vsub EARTH_CENTER (position s)) \<le> EARTH_RADIUS
         \<and> \<lparr>position = (600, 500), velocity = (1, 2), trail = [(1, 1)], alive = False\<rparr>
             = s\<lparr>alive := False\<rparr>)"
proof -
  let ?w = "\<lparr>sats = [\<lparr>position = (0, 0), velocity = (0, 0), trail = [], alive = False\<rparr>,
               \<lparr>position = (600, 500), velocity = (1, 2), trail = [(1, 1)], alive = True\<rparr>,
               \<lparr>position = (0, 450), velocity = (0, 0), trail = [], alive = True\<rparr>],
       energyCounter = 0, printed = []\<rparr>"
  let ?s1 = "\<lparr>position = (600, 500), velocity = (1, 2), trail = [(1, 1)], alive = False\<rparr>"
  note inst = physics_update_alive [of "1 / 50" ?w]
  have step: "live_step (0, 450) (0, 0) (1 / 50)
     = ((400 / 360000001, 112500003 / 250000), (20000 / 360000001, 3 / 5000))"
    by (simp add: live_step_def normalize_vec_def cdefs Let_def)
  have "sats (physics_update (1 / 50) ?w) = List.map_filter (sat_update (1 / 50)) (sats ?w)"
    using inst by (rule conjunct1)
  then have eq: "sats (physics_update (1 / 50) ?w)
      = [?s1, \<lparr>position = (400 / 360000001, 112500003 / 250000),
               velocity = (20000 / 360000001, 3 / 5000),
               trail = [(400 / 360000001, 112500003 / 250000)], alive = True\<rparr>]"
    by (simp add: List.map_filter_simps sat_update_def step trail_append_def MAX_TRAIL_def
        EARTH_CENTER_def EARTH_RADIUS_def)
  have mem: "?s1 \<in> set (sats (physics_update (1 / 50) ?w))"
    by (simp only: eq list.set insertI1)
  have "\<forall>s' \<in> set (sats (physics_update (1 / 50) ?w)). \<exists>s \<in> set (sats ?w). alive s \<and>
         (if length_vec (vsub EARTH_CENTER (position s)) \<le> EARTH_RADIUS
          then s' = s\<lparr>alive := False\<rparr>
          else alive s' \<and> (position s', velocity s') = live_step (position s) (velocity s) (1 / 50)
               \<and> trail s' = trail_append (trail s) (position s'))"
    using inst by (elim conjE)
  from bspec [OF this mem]
  have "\<exists>s \<in> set (sats ?w). alive s \<and> length_vec (vsub EARTH_CENTER (position s)) \<le> EARTH_RADIUS
         \<and> ?s1 = s\<lparr>alive := False\<rparr>"
    by (auto split: if_splits)
  then show ?thesis
    using eq by simp
qed

text \<open>
  C10. On the iteration that finds a live satellite within \<open>EARTH_RADIUS\<close> of
  \<open>EARTH_CENTER\<close>, the state changes in the alive flag of that satellite and in nothing
  else: position, velocity and trail of the satellite are as they were, and so are the
  other satellites, the energy counter and the output. At the end of the tick the
  satellite is in the collection, with these values and the flag cleared.
\<close>

theorem collision_tick_frame:
  assumes "i < length (sats w)"
    and "alive (sats w ! i)"
    and "length_vec (vsub EARTH_CENTER (position (sats w ! i))) \<le> EARTH_RADIUS"
  shows "physics_body dt i w = w\<lparr>sats := (sats w)[i := (sats w ! i)\<lparr>alive := False\<rparr>]\<rparr>
    \<and> position (sats (physics_body dt i w) ! i) = position (sats w ! i)
    \<and> velocity (sats (physics_body dt i w) ! i) = velocity (sats w ! i)
    \<and> trail (sats (physics_body dt i w) ! i) = trail (sats w ! i)
    \<and> \<not> alive (sats (physics_body dt i w) ! i)
    \<and> (sats w ! i)\<lparr>alive := False\<rparr> \<in> set (sats (physics_update dt w))"
proof -
  have body: "physics_body dt i w = w\<lparr>sats := (sats w)[i := (sats w ! i)\<lparr>alive := False\<rparr>]\<rparr>"
    using assms by (simp add: physics_body_def Let_def)
  have mem: "sats w ! i \<in> set (sats w)"
    using assms(1) by simp
  have "sat_update dt (sats w ! i) = Some ((sats w ! i)\<lparr>alive := False\<rparr>)"
    using assms by (simp add: sat_update_def)
  with mem have "(sats w ! i)\<lparr>alive := False\<rparr> \<in> set (sats (physics_update dt w))"
    by (auto simp: physics_update_sats set_map_filter_sat)
  then show ?thesis
    using assms(1) by (simp add: body)
qed

theorem collision_tick_frame_witness:
  "physics_body (1 / 60) 0
     \<lparr>sats = [\<lparr>position = (600, 500), velocity = (1, 2), trail = [(1, 1)], alive = True\<rparr>],
      energyCounter = 7, printed = [3]\<rparr>
   = \<lparr>sats = [\<lparr>position = (600, 500), velocity = (1, 2), trail = [(1, 1)], alive = False\<rparr>],
      energyCounter = 7, printed = [3]\<rparr>
   \<and> \<lparr>position = (600, 500), velocity = (1, 2), trail = [(1, 1)], alive = False\<rparr>
       \<in> set (sats (physics_update (1 / 60)
            \<lparr>sats = [\<lparr>position = (600, 500), velocity = (1, 2), trail = [(1, 1)], alive = True\<rparr>],
             energyCounter = 7, printed = [3]\<rparr>))"
proof -
  let ?w = "\<lparr>sats = [\<lparr>position = (600, 500), velocity = (1, 2), trail = [(1, 1)], alive = True\<rparr>],
      energyCounter = 7, printed = [3]\<rparr>"
  have h1: "0 < length (sats ?w)"
    by simp
  have h2: "alive (sats ?w ! 0)"
    by simp
  have h3: "length_vec (vsub EARTH_CENTER (position (sats ?w ! 0))) \<le> EARTH_RADIUS"
    by (simp add: cdefs)
  from collision_tick_frame [OF h1 h2 h3, of "1 / 60"] show ?thesis
    by simp
qed

text \<open>
  C3. The claim covers the body created at program start. The code evaluated there: the
  starter satellite is at (350, 0), farther than \<open>EARTH_RADIUS + 5\<close> from
  \<open>EARTH_CENTER\<close>; the magnitude of its velocity is not the circular-orbit speed for its
  distance to \<open>EARTH_CENTER\<close> times \<open>ORBIT_SPEED_SCALE\<close>, and its velocity is not
  perpendicular to the radius from \<open>EARTH_CENTER\<close>.
\<close>

theorem starter_not_circular:
  "sats initial_world = [starter]
   \<and> EARTH_RADIUS + 5 < length_vec (vsub (position starter) EARTH_CENTER)
   \<and> length_vec (velocity starter)
       \<noteq> sqrt (G * EARTH_MASS / max (length_vec (vsub (position starter) EARTH_CENTER)) MIN_DIST)
           * ORBIT_SPEED_SCALE
   \<and> fst (velocity starter) * fst (vsub (position starter) EARTH_CENTER)
       + snd (velocity starter) * snd (vsub (position starter) EARTH_CENTER) \<noteq> 0"
proof (intro conjI)
  show "sats initial_world = [starter]"
    by (simp add: initial_world_def)
  have d: "vsub (position starter) EARTH_CENTER = (- 250, - 450)"
    by (simp add: starter_def cdefs)
  have r: "length_vec (- 250, - 450) = sqrt 265000"
    by simp
  have r_big: "350 < sqrt 265000"
    by (rule real_less_rsqrt) simp
  show "EARTH_RADIUS + 5 < length_vec (vsub (position starter) EARTH_CENTER)"
    using r_big by (simp add: d EARTH_RADIUS_def)
  have vel: "velocity starter = (0, sqrt (1000 / 350) * 4)"
    by (simp add: starter_def cdefs)
  have lv: "length_vec (velocity starter) = sqrt (1000 / 350) * 4"
    unfolding vel by (simp add: length_vec_axis_y abs_mult del: length_vec.simps)
  have mx: "max (sqrt 265000) MIN_DIST = sqrt 265000"
    using r_big by (simp add: cdefs)
  have "1000 / sqrt 265000 < (1000 / 350 :: real)"
    using r_big by (simp add: field_simps)
  then have "sqrt (1000 / sqrt 265000) < sqrt (1000 / 350)"
    by (simp only: real_sqrt_less_iff)
  then have "sqrt (1000 / 350) * 4 \<noteq> sqrt (1000 / sqrt 265000) * 4"
    by simp
  then show "length_vec (velocity starter)
       \<noteq> sqrt (G * EARTH_MASS / max (length_vec (vsub (position starter) EARTH_CENTER)) MIN_DIST)
           * ORBIT_SPEED_SCALE"
    unfolding lv d r mx by (simp add: cdefs)
  have "0 < sqrt (1000 / 350 :: real)"
    by simp
  then show "fst (velocity starter) * fst (vsub (position starter) EARTH_CENTER)
       + snd (velocity starter) * snd (vsub (position starter) EARTH_CENTER) \<noteq> 0"
    unfolding vel d by simp
qed

text \<open>
  C5. The claim: the predictor returns no position within the central radius, and
  returns the empty sequence when the input position already collides. The code
  evaluated at the world position (640, 480), which is 50 units from \<open>EARTH_CENTER\<close>
  and so within the Earth, at rest, with timestep 0.02 and 400 steps: the collision test
  measures 800, the distance to the origin, the loop runs, and the first position
  returned is again within \<open>EARTH_RADIUS\<close> of \<open>EARTH_CENTER\<close>. The call is the one of
  a frame whose first satellite has just been marked dead at that position.
\<close>

theorem predictOrbit_inside_earth:
  "frame_ghost \<lparr>sats = [\<lparr>position = (640, 480), velocity = (0, 0), trail = [], alive = False\<rparr>],
                energyCounter = 0, printed = []\<rparr>
     = Some (predictOrbit (640, 480) (0, 0) (2 / 100) 400)
   \<and> length_vec (vsub (640, 480) EARTH_CENTER) \<le> EARTH_RADIUS
   \<and> \<not> isl (predictOrbit (640, 480) (0, 0) (2 / 100) 400)
   \<and> projr (predictOrbit (640, 480) (0, 0) (2 / 100) 400) \<noteq> []
   \<and> hd (projr (predictOrbit (640, 480) (0, 0) (2 / 100) 400))
       = (128000002020000003 / 200000000312500, 23999999378749999 / 50000000078125)
   \<and> length_vec (vsub (128000002020000003 / 200000000312500,
                        23999999378749999 / 50000000078125) EARTH_CENTER)
       \<le> EARTH_RADIUS"
proof (intro conjI)
  show "frame_ghost \<lparr>sats = [\<lparr>position = (640, 480), velocity = (0, 0), trail = [], alive = False\<rparr>],
                energyCounter = 0, printed = []\<rparr>
     = Some (predictOrbit (640, 480) (0, 0) (2 / 100) 400)"
    by (simp add: frame_ghost_def)
  show "length_vec (vsub (640, 480) EARTH_CENTER) \<le> EARTH_RADIUS"
    by (simp add: cdefs length_vec_le_iff del: length_vec.simps)
  have n: "nat 400 = Suc 399"
    by simp
  have len: "length_vec (- 640, - 480) = 800"
    by (rule length_vec_eqI) simp_all
  have far: "\<not> length_vec (vneg (640, 480)) \<le> EARTH_RADIUS"
    by (simp add: len cdefs del: length_vec.simps)
  have step: "predict_step (640, 480) (0, 0) (2 / 100)
      = ((128000002020000003 / 200000000312500, 23999999378749999 / 50000000078125),
         (1820000003 / 4000000006250, - (1317500002 / 2000000003125)))"
    by (simp add: predict_step_def normalize_vec_def cdefs Let_def len del: length_vec.simps)
  have first: "predict_loop (nat 400) (640, 480) (0, 0) (2 / 100) \<noteq> []
      \<and> hd (predict_loop (nat 400) (640, 480) (0, 0) (2 / 100))
        = (128000002020000003 / 200000000312500, 23999999378749999 / 50000000078125)"
    unfolding n using far step by (rule predict_loop_first)
  have ret: "predictOrbit (640, 480) (0, 0) (2 / 100) 400
      = Inr (predict_loop (nat 400) (640, 480) (0, 0) (2 / 100))"
    by (simp add: predictOrbit_def)
  show "\<not> isl (predictOrbit (640, 480) (0, 0) (2 / 100) 400)"
    by (simp only: ret sum.disc not_False_eq_True)
  show "projr (predictOrbit (640, 480) (0, 0) (2 / 100) 400) \<noteq> []"
    unfolding ret sum.sel using first by (rule conjunct1)
  show "hd (projr (predictOrbit (640, 480) (0, 0) (2 / 100) 400))
       = (128000002020000003 / 200000000312500, 23999999378749999 / 50000000078125)"
    unfolding ret sum.sel using first by (rule conjunct2)
  show "length_vec (vsub (128000002020000003 / 200000000312500,
                        23999999378749999 / 50000000078125) EARTH_CENTER)
       \<le> EARTH_RADIUS"
    by (simp add: cdefs length_vec_le_iff del: length_vec.simps)
qed



end
